theory Spec2Isabelle
  imports Main
begin

section \<open>The menu hook of \<^verbatim>\<open>packages/ariakit/src/menu/menu.ts\<close>\<close>

text \<open>
  The module defines the hook \<^verbatim>\<open>useMenu\<close> and the component \<^verbatim>\<open>Menu\<close>. Everything else it
  names is imported: React's \<^verbatim>\<open>useCallback\<close> and \<^verbatim>\<open>useMemo\<close>, and the library's own
  \<^verbatim>\<open>useStore\<close>, \<^verbatim>\<open>useEventCallback\<close>, \<^verbatim>\<open>useBooleanEventCallback\<close>, \<^verbatim>\<open>useMenuList\<close>,
  \<^verbatim>\<open>useHovercard\<close>, \<^verbatim>\<open>hasFocusWithin\<close>, \<^verbatim>\<open>createHook\<close>, \<^verbatim>\<open>createComponent\<close> and
  \<^verbatim>\<open>createElement\<close>. The imported library functions are parameters of the model (the record
  \<open>deps\<close> below); the body of the module is translated line by line.

  Two kinds of code run at two different times, and the model keeps them apart:
  \<^item> code that runs while the hook is evaluated (a render). It is a computation over the
    mutable world \<open>'w\<close> (the stores and the DOM) that either raises an exception of type
    \<open>'x\<close> or returns a value and the world it leaves;
  \<^item> event handlers and callbacks, which the hook only builds. A handler takes the event
    object and the world and returns both as it leaves them.
\<close>

subsection \<open>Events, elements and refs\<close>

datatype element = Element nat

text \<open>
  The part of a React synthetic event the module reads or writes: \<^verbatim>\<open>event.key\<close>,
  \<^verbatim>\<open>event.defaultPrevented\<close> and \<^verbatim>\<open>event.stopPropagation()\<close>. The event counts the calls of
  \<^verbatim>\<open>stopPropagation\<close> it has received; propagation is stopped once the count is positive.
\<close>

record synthetic_event =
  key :: string
  defaultPrevented :: bool
  stopPropagationCalls :: nat

definition stopPropagation :: "synthetic_event \<Rightarrow> synthetic_event" where
  "stopPropagation event = event\<lparr>stopPropagationCalls := Suc (stopPropagationCalls event)\<rparr>"

type_synonym 'w handler = "synthetic_event \<times> 'w \<Rightarrow> synthetic_event \<times> 'w"

type_synonym 'w boolean_callback = "synthetic_event \<times> 'w \<Rightarrow> bool \<times> synthetic_event \<times> 'w"

text \<open>\<^verbatim>\<open>BooleanOrCallback<T>\<close>: the type of the options \<^verbatim>\<open>hideOnEscape\<close> and \<^verbatim>\<open>hideOnHoverOutside\<close>.\<close>

datatype 'w boolean_or_callback = Boolean bool | Callback "'w boolean_callback"

text \<open>A ref object: \<^verbatim>\<open>ref.current\<close> is read from the world at the time of the read.\<close>

record 'w ref_object =
  current :: "'w \<Rightarrow> element option"

subsection \<open>The menu state and the ambient stores\<close>

datatype initial_focus = Container | First | Last

record 'w item =
  item_id :: string
  ref :: "'w ref_object"

text \<open>
  The fields of \<^verbatim>\<open>state\<close> that the module uses. \<^verbatim>\<open>state.first()\<close> and \<^verbatim>\<open>state.last()\<close> return an
  id, \<^verbatim>\<open>null\<close> or \<^verbatim>\<open>undefined\<close>; \<^verbatim>\<open>state.hide()\<close> writes to the store. The fields \<^verbatim>\<open>first\<close>,
  \<^verbatim>\<open>last\<close> and \<^verbatim>\<open>autoFocusOnShow\<close> carry the prefix \<open>state_\<close> here.
\<close>

record 'w menu_state =
  initialFocus :: initial_focus
  state_first :: "unit \<Rightarrow> string option"
  state_last :: "unit \<Rightarrow> string option"
  items :: "'w item list"
  baseRef :: "'w ref_object"
  disclosureRef :: "'w ref_object"
  state_autoFocusOnShow :: bool
  hide :: "'w \<Rightarrow> 'w"

text \<open>What \<^verbatim>\<open>useStore(MenuContext, [])\<close> yields when a parent provides the context.\<close>

record 'w parent_store =
  setActiveId :: "string option \<Rightarrow> 'w \<Rightarrow> 'w"

datatype store_context = MenuContext | MenuBarContext

subsection \<open>Props objects\<close>

text \<open>
  A props object is a JavaScript object: a finite map from property names to values. The
  object spread \<^verbatim>\<open>{a, ...props, b}\<close> is map override, the later entry winning. A property
  that is written with the value \<^verbatim>\<open>undefined\<close> is present with the value \<open>Undefined\<close>.
\<close>

datatype 'w prop_value =
    Undefined
  | BooleanValue bool
  | StringValue string
  | HandlerValue "'w handler"
  | CallbackValue "'w boolean_callback"
  | RefValue "'w ref_object"
  | StateValue "'w menu_state"

type_synonym 'w props = "string \<Rightarrow> 'w prop_value option"

text \<open>Reading a property: \<^verbatim>\<open>props.modal\<close> is \<^verbatim>\<open>undefined\<close> when the object has no such key.\<close>

definition get_prop :: "'w props \<Rightarrow> string \<Rightarrow> 'w prop_value" where
  "get_prop props name = (case props name of None \<Rightarrow> Undefined | Some v \<Rightarrow> v)"

text \<open>\<^verbatim>\<open>props.onKeyDown\<close> as the optional handler that \<^verbatim>\<open>useEventCallback\<close> takes.\<close>

definition get_handler :: "'w props \<Rightarrow> string \<Rightarrow> 'w handler option" where
  "get_handler props name = (case props name of Some (HandlerValue h) \<Rightarrow> Some h | _ \<Rightarrow> None)"

definition boolean_or_callback_value :: "'w boolean_or_callback \<Rightarrow> 'w prop_value" where
  "boolean_or_callback_value v = (case v of Boolean b \<Rightarrow> BooleanValue b | Callback f \<Rightarrow> CallbackValue f)"

definition ref_value :: "'w ref_object option \<Rightarrow> 'w prop_value" where
  "ref_value r = (case r of None \<Rightarrow> Undefined | Some r' \<Rightarrow> RefValue r')"

text \<open>
  The argument of \<^verbatim>\<open>useMenu\<close>, as its parameter list destructures it: the four named options
  and the rest. An option that is absent is \<open>None\<close>.
\<close>

record 'w menu_options =
  state :: "'w menu_state"
  hideOnEscape :: "'w boolean_or_callback option"
  autoFocusOnShow :: "bool option"
  hideOnHoverOutside :: "'w boolean_or_callback option"
  props :: "'w props"

subsection \<open>Render computations and the imported functions\<close>

type_synonym ('w, 'x, 'a) render = "'w \<Rightarrow> 'x + 'a \<times> 'w"

definition returns :: "'a \<Rightarrow> ('w, 'x, 'a) render" where
  "returns a w = Inr (a, w)"

text \<open>Sequencing: a statement that raises ends the render with that exception.\<close>

definition and_then :: "('w, 'x, 'a) render \<Rightarrow> ('a \<Rightarrow> ('w, 'x, 'b) render) \<Rightarrow> ('w, 'x, 'b) render" where
  "and_then m f w = (case m w of Inl e \<Rightarrow> Inl e | Inr (a, w') \<Rightarrow> f a w')"

text \<open>
  The functions the module imports from the rest of the library. Their code is not part of
  the module, so nothing is assumed of them here: a hook may read and write the world and
  may raise.
\<close>

record ('w, 'x, 'e) deps =
  useStore :: "store_context \<Rightarrow> ('w, 'x, 'w parent_store option) render"
  useEventCallback :: "'w handler option \<Rightarrow> ('w, 'x, 'w handler) render"
  useBooleanEventCallback :: "'w boolean_or_callback \<Rightarrow> ('w, 'x, 'w boolean_callback) render"
  useMenuList :: "'w props \<Rightarrow> ('w, 'x, 'w props) render"
  useHovercard :: "'w props \<Rightarrow> ('w, 'x, 'w props) render"
  hasFocusWithin :: "element \<Rightarrow> 'w \<Rightarrow> bool"
  createHook :: "('w menu_options \<Rightarrow> ('w, 'x, 'w props) render) \<Rightarrow> 'w menu_options \<Rightarrow> ('w, 'x, 'w props) render"
  createComponent :: "('w menu_options \<Rightarrow> ('w, 'x, 'e) render) \<Rightarrow> 'w menu_options \<Rightarrow> ('w, 'x, 'e) render"
  createElement :: "string \<Rightarrow> 'w props \<Rightarrow> ('w, 'x, 'e) render"

subsection \<open>\<^verbatim>\<open>useMenu\<close>\<close>

text \<open>Lines 40 and 41: the two mode flags.\<close>

definition hasParentMenu :: "'w parent_store option \<Rightarrow> bool" where
  "hasParentMenu parentMenu = (parentMenu \<noteq> None)"

definition parentIsMenuBar :: "'w parent_store option \<Rightarrow> 'w parent_store option \<Rightarrow> bool" where
  "parentIsMenuBar parentMenuBar parentMenu = (parentMenuBar \<noteq> None \<and> \<not> hasParentMenu parentMenu)"

text \<open>
  Lines 46 to 61: the key-down handler. \<^verbatim>\<open>useCallback\<close> returns the function it is given; the
  values the function closes over are the parameters here.
\<close>

definition onKeyDown ::
  "'w handler \<Rightarrow> 'w boolean_callback \<Rightarrow> bool \<Rightarrow> 'w menu_state \<Rightarrow> 'w handler" where
  "onKeyDown onKeyDownProp hideOnEscapeProp hasParentMenu' state' = (\<lambda>(event, w).
     case onKeyDownProp (event, w) of (event1, w1) \<Rightarrow>
       if defaultPrevented event1 then (event1, w1)
       else if key event1 = ''Escape'' then
         (case hideOnEscapeProp (event1, w1) of (hideOnEscape', event2, w2) \<Rightarrow>
            if \<not> hideOnEscape' then (event2, w2)
            else ((if \<not> hasParentMenu' then stopPropagation event2 else event2), hide state' w2))
       else (event1, w1))"

text \<open>
  Lines 73 to 100: the ref that receives focus when the menu opens, as the function given to
  \<^verbatim>\<open>useMemo\<close> computes it. This is what \<^verbatim>\<open>useMemo\<close> returns on a render that evaluates the
  function: the first one, and every one on which a dependency has changed. On a render
  with unchanged dependencies \<^verbatim>\<open>useMemo\<close> returns the ref computed earlier, which is the same
  ref as long as \<^verbatim>\<open>state.first()\<close> and \<^verbatim>\<open>state.last()\<close> are getters, as they are modelled here:
  functions of the state object that return an id or nothing, write nothing and do not
  raise. \<^verbatim>\<open>if (id)\<close> fails for \<^verbatim>\<open>null\<close>, \<^verbatim>\<open>undefined\<close> and the empty string;
  \<^verbatim>\<open>items.find(...)?.ref\<close> is \<^verbatim>\<open>undefined\<close> when no item has the id.
\<close>

definition find_item_ref :: "'w menu_state \<Rightarrow> string \<Rightarrow> 'w ref_object option" where
  "find_item_ref state' i = map_option ref (find (\<lambda>item. item_id item = i) (items state'))"

definition initialFocusRef :: "'w menu_state \<Rightarrow> 'w ref_object option" where
  "initialFocusRef state' =
     (case initialFocus state' of
        First \<Rightarrow>
          (case state_first state' () of
             Some i \<Rightarrow> if i \<noteq> [] then find_item_ref state' i else Some (baseRef state')
           | None \<Rightarrow> Some (baseRef state'))
      | Last \<Rightarrow>
          (case state_last state' () of
             Some i \<Rightarrow> if i \<noteq> [] then find_item_ref state' i else Some (baseRef state')
           | None \<Rightarrow> Some (baseRef state'))
      | Container \<Rightarrow> Some (baseRef state'))"

text \<open>
  Lines 107 to 121: the function passed to \<^verbatim>\<open>useHovercard\<close> as \<^verbatim>\<open>hideOnHoverOutside\<close>. The test
  \<^verbatim>\<open>if (hasParentMenu)\<close> of line 112 is the case distinction on \<open>parentMenu\<close>, since
  \<^verbatim>\<open>hasParentMenu\<close> is \<^verbatim>\<open>!!parentMenu\<close>; the option is \<open>None\<close> for \<^verbatim>\<open>undefined\<close> and \<^verbatim>\<open>null\<close>.
\<close>

definition hideOnHoverOutside_callback ::
  "('w, 'x, 'e) deps \<Rightarrow> 'w boolean_or_callback option \<Rightarrow> 'w parent_store option \<Rightarrow> bool \<Rightarrow>
     'w menu_state \<Rightarrow> 'w boolean_callback" where
  "hideOnHoverOutside_callback d hideOnHoverOutside' parentMenu parentIsMenuBar' state' = (\<lambda>(event, w).
     case hideOnHoverOutside' of
       Some (Callback f) \<Rightarrow> f (event, w)
     | Some (Boolean b) \<Rightarrow> (b, event, w)
     | None \<Rightarrow>
         (case parentMenu of
            Some parent \<Rightarrow> (True, event, setActiveId parent None w)
          | None \<Rightarrow>
              if \<not> parentIsMenuBar' then (False, event, w)
              else
                (case current (disclosureRef state') w of
                   None \<Rightarrow> (True, event, w)
                 | Some disclosure \<Rightarrow>
                     if hasFocusWithin d disclosure w then (False, event, w) else (True, event, w))))"

text \<open>Lines 63 to 71: the object passed to \<^verbatim>\<open>useMenuList\<close>.\<close>

definition menuList_props :: "'w menu_options \<Rightarrow> 'w handler \<Rightarrow> 'w props" where
  "menuList_props options onKeyDown' =
     [''state'' \<mapsto> StateValue (state options)] ++ (props options)(''onKeyDown'' \<mapsto> HandlerValue onKeyDown')"

text \<open>
  Lines 102 to 130: the object passed to \<^verbatim>\<open>useHovercard\<close>. Here \<open>props'\<close> is what
  \<^verbatim>\<open>useMenuList\<close> returned, which the source has assigned to \<^verbatim>\<open>props\<close> by then.
\<close>

definition hovercard_props ::
  "('w, 'x, 'e) deps \<Rightarrow> 'w menu_options \<Rightarrow> 'w parent_store option \<Rightarrow> 'w parent_store option \<Rightarrow>
     'w props \<Rightarrow> 'w props" where
  "hovercard_props d options parentMenu parentMenuBar props' =
     ([''state'' \<mapsto> StateValue (state options),
       ''autoFocusOnShow'' \<mapsto>
          BooleanValue (state_autoFocusOnShow (state options) \<and>
            (case autoFocusOnShow options of None \<Rightarrow> True | Some b \<Rightarrow> b)),
       ''initialFocusRef'' \<mapsto> ref_value (initialFocusRef (state options))]
      ++ props')
     (''hideOnHoverOutside'' \<mapsto>
        CallbackValue (hideOnHoverOutside_callback d (hideOnHoverOutside options) parentMenu
          (parentIsMenuBar parentMenuBar parentMenu) (state options)),
      ''modal'' \<mapsto> (if hasParentMenu parentMenu then BooleanValue False else get_prop props' ''modal''),
      ''backdrop'' \<mapsto> (if hasParentMenu parentMenu then BooleanValue False else get_prop props' ''backdrop''),
      ''hideOnEscape'' \<mapsto>
        (if hasParentMenu parentMenu then BooleanValue False
         else boolean_or_callback_value
           (case hideOnEscape options of None \<Rightarrow> Boolean True | Some v \<Rightarrow> v)))"

text \<open>Lines 31 to 133: the function that \<^verbatim>\<open>createHook\<close> receives.\<close>

definition useMenu_props :: "('w, 'x, 'e) deps \<Rightarrow> 'w menu_options \<Rightarrow> ('w, 'x, 'w props) render" where
  "useMenu_props d options =
     and_then (useStore d MenuContext) (\<lambda>parentMenu.
     and_then (useStore d MenuBarContext) (\<lambda>parentMenuBar.
     and_then (useEventCallback d (get_handler (props options) ''onKeyDown'')) (\<lambda>onKeyDownProp.
     and_then (useBooleanEventCallback d
         (case hideOnEscape options of None \<Rightarrow> Boolean True | Some v \<Rightarrow> v)) (\<lambda>hideOnEscapeProp.
     and_then (useMenuList d
         (menuList_props options
            (onKeyDown onKeyDownProp hideOnEscapeProp (hasParentMenu parentMenu) (state options)))) (\<lambda>props'.
     useHovercard d (hovercard_props d options parentMenu parentMenuBar props'))))))"

definition useMenu :: "('w, 'x, 'e) deps \<Rightarrow> 'w menu_options \<Rightarrow> ('w, 'x, 'w props) render" where
  "useMenu d = createHook d (useMenu_props d)"

subsection \<open>\<^verbatim>\<open>Menu\<close>\<close>

text \<open>Lines 149 to 152: the function that \<^verbatim>\<open>createComponent\<close> receives, and the component.\<close>

definition Menu_render :: "('w, 'x, 'e) deps \<Rightarrow> 'w menu_options \<Rightarrow> ('w, 'x, 'e) render" where
  "Menu_render d options = and_then (useMenu d options) (\<lambda>htmlProps. createElement d ''div'' htmlProps)"

definition Menu :: "('w, 'x, 'e) deps \<Rightarrow> 'w menu_options \<Rightarrow> ('w, 'x, 'e) render" where
  "Menu d = createComponent d (Menu_render d)"


subsection \<open>Example inputs\<close>

text \<open>
  A world that records the store writes in order, a menu with two items, and imported
  functions of the simplest kind: the hooks return without touching the world,
  \<^verbatim>\<open>useEventCallback\<close> and \<^verbatim>\<open>useBooleanEventCallback\<close> return the callback they wrap, and
  \<^verbatim>\<open>useMenuList\<close> and \<^verbatim>\<open>useHovercard\<close> return the props they are given. The theorems below are
  instantiated with them.
\<close>

type_synonym trace = "string list"

definition demo_ref :: "nat \<Rightarrow> trace ref_object" where
  "demo_ref n = \<lparr>current = (\<lambda>w. Some (Element n))\<rparr>"

definition demo_state :: "trace menu_state" where
  "demo_state =
     \<lparr>initialFocus = First,
      state_first = (\<lambda>u. Some ''undo''),
      state_last = (\<lambda>u. Some ''redo''),
      items = [\<lparr>item_id = ''undo'', ref = demo_ref 1\<rparr>, \<lparr>item_id = ''redo'', ref = demo_ref 2\<rparr>],
      baseRef = demo_ref 0,
      disclosureRef = demo_ref 9,
      state_autoFocusOnShow = True,
      hide = (\<lambda>w. w @ [''hide''])\<rparr>"


definition demo_event :: synthetic_event where
  "demo_event = \<lparr>key = ''Escape'', defaultPrevented = False, stopPropagationCalls = 0\<rparr>"

definition preventDefault :: "trace handler" where
  "preventDefault = (\<lambda>(event, w). (event\<lparr>defaultPrevented := True\<rparr>, w @ [''caller'']))"

definition log_caller :: "trace handler" where
  "log_caller = (\<lambda>(event, w). (event, w @ [''caller'']))"

definition always :: "bool \<Rightarrow> trace boolean_callback" where
  "always b = (\<lambda>(event, w). (b, event, w))"

definition demo_parent :: "trace parent_store" where
  "demo_parent = \<lparr>setActiveId = (\<lambda>i w. w @ [''setActiveId''])\<rparr>"

definition demo_deps ::
  "trace parent_store option \<Rightarrow> trace parent_store option \<Rightarrow> (trace, string, string) deps" where
  "demo_deps parentMenu parentMenuBar =
     \<lparr>useStore = (\<lambda>c. returns (case c of MenuContext \<Rightarrow> parentMenu | MenuBarContext \<Rightarrow> parentMenuBar)),
      useEventCallback = (\<lambda>h. returns (case h of None \<Rightarrow> (\<lambda>x. x) | Some f \<Rightarrow> f)),
      useBooleanEventCallback = (\<lambda>v. returns (case v of Boolean b \<Rightarrow> always b | Callback f \<Rightarrow> f)),
      useMenuList = returns,
      useHovercard = returns,
      hasFocusWithin = (\<lambda>e w. False),
      createHook = (\<lambda>f. f),
      createComponent = (\<lambda>f. f),
      createElement = (\<lambda>tag p. returns tag)\<rparr>"

definition demo_options :: "trace menu_options" where
  "demo_options =
     \<lparr>state = demo_state,
      hideOnEscape = None,
      autoFocusOnShow = None,
      hideOnHoverOutside = None,
      props = [''modal'' \<mapsto> BooleanValue True, ''onKeyDown'' \<mapsto> HandlerValue log_caller]\<rparr>"

section \<open>Running the hook\<close>

lemma and_then_Inr: "m w = Inr (a, w') \<Longrightarrow> and_then m f w = f a w'"
  by (simp add: and_then_def)

text \<open>Once the four utility hooks have returned, the rest of the render is the two delegations.\<close>

lemma useMenu_props_lists:
  assumes "useStore d MenuContext w = Inr (parentMenu, w1)"
    and "useStore d MenuBarContext w1 = Inr (parentMenuBar, w2)"
    and "useEventCallback d (get_handler (props options) ''onKeyDown'') w2 = Inr (onKeyDownProp, w3)"
    and "useBooleanEventCallback d (case hideOnEscape options of None \<Rightarrow> Boolean True | Some v \<Rightarrow> v) w3
           = Inr (hideOnEscapeProp, w4)"
  shows "useMenu_props d options w =
           and_then
             (useMenuList d (menuList_props options
                (onKeyDown onKeyDownProp hideOnEscapeProp (hasParentMenu parentMenu) (state options))))
             (\<lambda>props'. useHovercard d (hovercard_props d options parentMenu parentMenuBar props')) w4"
  using assms by (simp add: useMenu_props_def and_then_Inr)

lemma useMenu_props_run:
  assumes "useStore d MenuContext w = Inr (parentMenu, w1)"
    and "useStore d MenuBarContext w1 = Inr (parentMenuBar, w2)"
    and "useEventCallback d (get_handler (props options) ''onKeyDown'') w2 = Inr (onKeyDownProp, w3)"
    and "useBooleanEventCallback d (case hideOnEscape options of None \<Rightarrow> Boolean True | Some v \<Rightarrow> v) w3
           = Inr (hideOnEscapeProp, w4)"
    and "useMenuList d (menuList_props options
           (onKeyDown onKeyDownProp hideOnEscapeProp (hasParentMenu parentMenu) (state options))) w4
           = Inr (props', w5)"
  shows "useMenu_props d options w =
           useHovercard d (hovercard_props d options parentMenu parentMenuBar props') w5"
  using assms by (simp add: useMenu_props_lists and_then_Inr)

text \<open>The example render: every hook returns, and the world is the one it started in.\<close>

lemma demo_run:
  "useMenu_props (demo_deps parentMenu parentMenuBar) demo_options w =
     Inr (hovercard_props (demo_deps parentMenu parentMenuBar) demo_options parentMenu parentMenuBar
            (menuList_props demo_options
               (onKeyDown log_caller (always True) (hasParentMenu parentMenu) demo_state)), w)"
proof -
  have "useMenu_props (demo_deps parentMenu parentMenuBar) demo_options w =
          useHovercard (demo_deps parentMenu parentMenuBar)
            (hovercard_props (demo_deps parentMenu parentMenuBar) demo_options parentMenu parentMenuBar
               (menuList_props demo_options
                  (onKeyDown log_caller (always True) (hasParentMenu parentMenu) (state demo_options)))) w"
    by (rule useMenu_props_run [where ?w1.0 = w and ?w2.0 = w and ?w3.0 = w and ?w4.0 = w])
      (simp_all add: demo_deps_def returns_def get_handler_def demo_options_def)
  then show ?thesis
    by (simp add: demo_deps_def returns_def demo_options_def)
qed

section \<open>Properties of the module\<close>

text \<open>
  C1. For every props object whose \<^verbatim>\<open>onKeyDown\<close> is a handler \<open>caller\<close>: \<^verbatim>\<open>useMenu\<close> hands that
  handler to \<^verbatim>\<open>useEventCallback\<close>, builds its key-down handler from the event callback it
  gets back, installs it as \<^verbatim>\<open>onKeyDown\<close> in the props it passes to \<^verbatim>\<open>useMenuList\<close>, and does not
  replace the \<^verbatim>\<open>onKeyDown\<close> of the props it passes on to \<^verbatim>\<open>useHovercard\<close>. With an event callback
  that calls the handler it wraps, the installed handler calls \<open>caller\<close> first: it is the
  module's Escape handling applied to the event and the world as \<open>caller\<close> left them. When
  \<open>caller\<close> has left \<^verbatim>\<open>event.defaultPrevented\<close> set, the installed handler returns exactly what
  \<open>caller\<close> left: \<^verbatim>\<open>hideOnEscape\<close> is not consulted, \<^verbatim>\<open>stopPropagation\<close> is not called and
  \<^verbatim>\<open>state.hide\<close> is not called.
\<close>

theorem useMenu_onKeyDown_caller_first:
  assumes "props options ''onKeyDown'' = Some (HandlerValue caller)"
    and "useStore d MenuContext w = Inr (parentMenu, w1)"
    and "useStore d MenuBarContext w1 = Inr (parentMenuBar, w2)"
    and "useEventCallback d (Some caller) w2 = Inr (onKeyDownProp, w3)"
    and "useBooleanEventCallback d (case hideOnEscape options of None \<Rightarrow> Boolean True | Some v \<Rightarrow> v) w3
           = Inr (hideOnEscapeProp, w4)"
    and "onKeyDownProp (event, v) = caller (event, v)"
    and "caller (event, v) = (event1, v1)"
  shows "let handler = onKeyDown onKeyDownProp hideOnEscapeProp (hasParentMenu parentMenu) (state options) in
         useMenu_props d options w =
           and_then (useMenuList d (menuList_props options handler))
             (\<lambda>props'. useHovercard d (hovercard_props d options parentMenu parentMenuBar props')) w4
         \<and> menuList_props options handler ''onKeyDown'' = Some (HandlerValue handler)
         \<and> (\<forall>props'. hovercard_props d options parentMenu parentMenuBar props' ''onKeyDown''
               = props' ''onKeyDown'')
         \<and> handler (event, v) =
             (if defaultPrevented event1 then (event1, v1)
              else onKeyDown (\<lambda>x. x) hideOnEscapeProp (hasParentMenu parentMenu) (state options) (event1, v1))
         \<and> (defaultPrevented event1 \<longrightarrow> handler (event, v) = caller (event, v))"
proof -
  have read: "get_handler (props options) ''onKeyDown'' = Some caller"
    using assms(1) by (simp add: get_handler_def)
  have run: "useMenu_props d options w =
      and_then
        (useMenuList d (menuList_props options
           (onKeyDown onKeyDownProp hideOnEscapeProp (hasParentMenu parentMenu) (state options))))
        (\<lambda>props'. useHovercard d (hovercard_props d options parentMenu parentMenuBar props')) w4"
    using assms(2,3,4,5) by (intro useMenu_props_lists) (simp_all add: read)
  have installed: "\<And>handler. menuList_props options handler ''onKeyDown'' = Some (HandlerValue handler)"
    by (simp add: menuList_props_def)
  have kept: "\<And>props'. hovercard_props d options parentMenu parentMenuBar props' ''onKeyDown''
      = props' ''onKeyDown''"
    by (simp add: hovercard_props_def map_add_def split: option.splits)
  have first: "onKeyDown onKeyDownProp hideOnEscapeProp (hasParentMenu parentMenu) (state options) (event, v) =
      (if defaultPrevented event1 then (event1, v1)
       else onKeyDown (\<lambda>x. x) hideOnEscapeProp (hasParentMenu parentMenu) (state options) (event1, v1))"
    using assms(6,7) by (simp add: onKeyDown_def)
  show ?thesis
    using run installed kept first assms(7) by (simp add: Let_def)
qed

text \<open>
  The example render, once with a caller's handler that prevents the default and once with
  one that does not. The handler that comes back in the returned props, on an Escape key
  press, leaves the trace at the caller's entry in the first case and goes on to
  \<^verbatim>\<open>stopPropagation\<close> and \<^verbatim>\<open>hide\<close> in the second.
\<close>

theorem useMenu_onKeyDown_caller_first_witness:
  "(case useMenu_props (demo_deps None None)
           (demo_options\<lparr>props := [''onKeyDown'' \<mapsto> HandlerValue preventDefault]\<rparr>) [] of
      Inl e \<Rightarrow> False
    | Inr (p, w) \<Rightarrow>
        (case p ''onKeyDown'' of
           Some (HandlerValue handler) \<Rightarrow>
             handler (demo_event, []) = (demo_event\<lparr>defaultPrevented := True\<rparr>, [''caller''])
         | _ \<Rightarrow> False))
   \<and> (case useMenu_props (demo_deps None None)
           (demo_options\<lparr>props := [''onKeyDown'' \<mapsto> HandlerValue log_caller]\<rparr>) [] of
      Inl e \<Rightarrow> False
    | Inr (p, w) \<Rightarrow>
        (case p ''onKeyDown'' of
           Some (HandlerValue handler) \<Rightarrow>
             handler (demo_event, []) = (demo_event\<lparr>stopPropagationCalls := 1\<rparr>, [''caller'', ''hide''])
         | _ \<Rightarrow> False))"
proof -
  have returned: "case useMenu_props (demo_deps None None)
           (demo_options\<lparr>props := [''onKeyDown'' \<mapsto> HandlerValue caller]\<rparr>) [] of
      Inl e \<Rightarrow> False
    | Inr (p, w) \<Rightarrow>
        (case p ''onKeyDown'' of
           Some (HandlerValue handler) \<Rightarrow> handler (demo_event, []) = result
         | _ \<Rightarrow> False)"
    if left: "caller (demo_event, []) = (event1, v1)"
      and expect: "(if defaultPrevented event1 then (event1, v1)
                    else onKeyDown (\<lambda>x. x) (always True) False demo_state (event1, v1)) = result"
    for caller event1 v1 result
  proof -
    let ?options = "demo_options\<lparr>props := [''onKeyDown'' \<mapsto> HandlerValue caller]\<rparr>"
    have 0: "props ?options ''onKeyDown'' = Some (HandlerValue caller)"
      and 1: "useStore (demo_deps None None) MenuContext [] = Inr (None, [])"
      and 2: "useStore (demo_deps None None) MenuBarContext [] = Inr (None, [])"
      and 3: "useEventCallback (demo_deps None None) (Some caller) [] = Inr (caller, [])"
      and 4: "useBooleanEventCallback (demo_deps None None)
                (case hideOnEscape ?options of None \<Rightarrow> Boolean True | Some v \<Rightarrow> v) []
                = Inr (always True, [])"
      by (simp_all add: demo_deps_def returns_def demo_options_def)
    have st: "state ?options = demo_state"
      and flag: "hasParentMenu (None :: trace parent_store option) = False"
      by (simp_all add: demo_options_def hasParentMenu_def)
    have hooks: "\<And>p. useMenuList (demo_deps None None) p = returns p"
      "\<And>p. useHovercard (demo_deps None None) p = returns p"
      by (simp_all add: demo_deps_def)
    show ?thesis
      using useMenu_onKeyDown_caller_first [OF 0 1 2 3 4 refl left] expect
      by (auto simp add: Let_def st flag hooks and_then_def returns_def split: if_splits)
  qed
  have a: "preventDefault (demo_event, []) = (demo_event\<lparr>defaultPrevented := True\<rparr>, [''caller''])"
    by (simp add: preventDefault_def)
  have a': "(if defaultPrevented (demo_event\<lparr>defaultPrevented := True\<rparr>)
             then (demo_event\<lparr>defaultPrevented := True\<rparr>, [''caller''])
             else onKeyDown (\<lambda>x. x) (always True) False demo_state
                    (demo_event\<lparr>defaultPrevented := True\<rparr>, [''caller'']))
            = (demo_event\<lparr>defaultPrevented := True\<rparr>, [''caller''])"
    by simp
  have b: "log_caller (demo_event, []) = (demo_event, [''caller''])"
    by (simp add: log_caller_def)
  have b': "(if defaultPrevented demo_event then (demo_event, [''caller''])
             else onKeyDown (\<lambda>x. x) (always True) False demo_state (demo_event, [''caller'']))
            = (demo_event\<lparr>stopPropagationCalls := 1\<rparr>, [''caller'', ''hide''])"
    by (simp add: onKeyDown_def always_def demo_event_def demo_state_def stopPropagation_def)
  show ?thesis
    by (intro conjI
        returned [of preventDefault "demo_event\<lparr>defaultPrevented := True\<rparr>" "[''caller'']"
          "(demo_event\<lparr>defaultPrevented := True\<rparr>, [''caller''])", OF a a']
        returned [of log_caller demo_event "[''caller'']"
          "(demo_event\<lparr>stopPropagationCalls := 1\<rparr>, [''caller'', ''hide''])", OF b b'])
qed

text \<open>
  C2. Once the context reads and the two event callbacks have returned, \<^verbatim>\<open>useMenu\<close> is
  \<^verbatim>\<open>useMenuList\<close> followed by \<^verbatim>\<open>useHovercard\<close>, in that order, and returns what \<^verbatim>\<open>useHovercard\<close>
  returns. \<^verbatim>\<open>useMenuList\<close> receives the caller's props with the merged \<^verbatim>\<open>onKeyDown\<close> installed
  (and \<^verbatim>\<open>state\<close>); \<^verbatim>\<open>useHovercard\<close> receives the result of \<^verbatim>\<open>useMenuList\<close>, unchanged on every
  property but the seven that \<^verbatim>\<open>useMenu\<close> sets itself.
\<close>

theorem useMenu_delegation_order:
  assumes "useStore d MenuContext w = Inr (parentMenu, w1)"
    and "useStore d MenuBarContext w1 = Inr (parentMenuBar, w2)"
    and "useEventCallback d (get_handler (props options) ''onKeyDown'') w2 = Inr (onKeyDownProp, w3)"
    and "useBooleanEventCallback d (case hideOnEscape options of None \<Rightarrow> Boolean True | Some v \<Rightarrow> v) w3
           = Inr (hideOnEscapeProp, w4)"
  shows "let handler = onKeyDown onKeyDownProp hideOnEscapeProp (hasParentMenu parentMenu) (state options) in
         useMenu_props d options w =
           and_then (useMenuList d (menuList_props options handler))
             (\<lambda>props'. useHovercard d (hovercard_props d options parentMenu parentMenuBar props')) w4
         \<and> menuList_props options handler ''onKeyDown'' = Some (HandlerValue handler)
         \<and> (\<forall>name. name \<noteq> ''onKeyDown'' \<and> name \<noteq> ''state'' \<longrightarrow>
               menuList_props options handler name = props options name)
         \<and> (\<forall>props' name.
               name \<notin> {''state'', ''autoFocusOnShow'', ''initialFocusRef'', ''hideOnHoverOutside'',
                        ''modal'', ''backdrop'', ''hideOnEscape''} \<longrightarrow>
               hovercard_props d options parentMenu parentMenuBar props' name = props' name)"
proof -
  have "\<And>handler name. name \<noteq> ''onKeyDown'' \<Longrightarrow> name \<noteq> ''state'' \<Longrightarrow>
          menuList_props options handler name = props options name"
    by (simp add: menuList_props_def map_add_def split: option.splits)
  moreover have "\<And>handler. menuList_props options handler ''onKeyDown'' = Some (HandlerValue handler)"
    by (simp add: menuList_props_def)
  moreover have "\<And>props' name.
      name \<notin> {''state'', ''autoFocusOnShow'', ''initialFocusRef'', ''hideOnHoverOutside'',
               ''modal'', ''backdrop'', ''hideOnEscape''} \<Longrightarrow>
      hovercard_props d options parentMenu parentMenuBar props' name = props' name"
    by (simp add: hovercard_props_def map_add_def split: option.splits)
  ultimately show ?thesis
    using useMenu_props_lists [OF assms] by (simp add: Let_def)
qed

text \<open>
  With hooks that return the props they are given, the props \<^verbatim>\<open>useMenu\<close> returns are the
  object built for \<^verbatim>\<open>useHovercard\<close> from the object built for \<^verbatim>\<open>useMenuList\<close>; a caller's
  property that \<^verbatim>\<open>useMenu\<close> does not set arrives as the caller gave it.
\<close>

theorem useMenu_delegation_order_witness:
  "useMenu_props (demo_deps None None) (demo_options\<lparr>props := (props demo_options)(''id'' \<mapsto> StringValue ''edit'')\<rparr>) []
     = Inr (hovercard_props (demo_deps None None)
              (demo_options\<lparr>props := (props demo_options)(''id'' \<mapsto> StringValue ''edit'')\<rparr>) None None
              (menuList_props (demo_options\<lparr>props := (props demo_options)(''id'' \<mapsto> StringValue ''edit'')\<rparr>)
                 (onKeyDown log_caller (always True) (hasParentMenu (None :: trace parent_store option)) demo_state)), [])
   \<and> hovercard_props (demo_deps None None)
        (demo_options\<lparr>props := (props demo_options)(''id'' \<mapsto> StringValue ''edit'')\<rparr>) None None
        (menuList_props (demo_options\<lparr>props := (props demo_options)(''id'' \<mapsto> StringValue ''edit'')\<rparr>)
           (onKeyDown log_caller (always True) (hasParentMenu (None :: trace parent_store option)) demo_state)) ''id''
       = Some (StringValue ''edit'')"
proof -
  let ?options = "demo_options\<lparr>props := (props demo_options)(''id'' \<mapsto> StringValue ''edit'')\<rparr>"
  let ?handler = "onKeyDown log_caller (always True) (hasParentMenu (None :: trace parent_store option)) (state ?options)"
  have 1: "useStore (demo_deps None None) MenuContext [] = Inr (None, [])"
    and 2: "useStore (demo_deps None None) MenuBarContext [] = Inr (None, [])"
    and 3: "useEventCallback (demo_deps None None) (get_handler (props ?options) ''onKeyDown'') []
              = Inr (log_caller, [])"
    and 4: "useBooleanEventCallback (demo_deps None None)
              (case hideOnEscape ?options of None \<Rightarrow> Boolean True | Some v \<Rightarrow> v) [] = Inr (always True, [])"
    by (simp_all add: demo_deps_def returns_def get_handler_def demo_options_def)
  have st: "state ?options = demo_state"
    by (simp add: demo_options_def)
  have "''id'' \<noteq> ''onKeyDown''" and "''id'' \<noteq> ''state''"
    and "''id'' \<notin> {''state'', ''autoFocusOnShow'', ''initialFocusRef'', ''hideOnHoverOutside'',
                    ''modal'', ''backdrop'', ''hideOnEscape''}"
    by simp_all
  then have "useMenu_props (demo_deps None None) ?options [] =
          and_then (useMenuList (demo_deps None None) (menuList_props ?options ?handler))
            (\<lambda>props'. useHovercard (demo_deps None None)
               (hovercard_props (demo_deps None None) ?options None None props')) []"
    and "hovercard_props (demo_deps None None) ?options None None (menuList_props ?options ?handler) ''id''
           = props ?options ''id''"
    using useMenu_delegation_order [OF 1 2 3 4] by (simp_all add: Let_def)
  then show ?thesis
    by (simp add: st and_then_def) (simp add: demo_deps_def returns_def)
qed

text \<open>
  C3. The handler that \<^verbatim>\<open>useMenu\<close> installs as \<^verbatim>\<open>onKeyDown\<close> is built from the event callback of
  the caller's handler, the boolean callback of \<^verbatim>\<open>hideOnEscape\<close> (\<^verbatim>\<open>true\<close> when the option is
  absent), the parent menu read from \<^verbatim>\<open>MenuContext\<close> and the \<^verbatim>\<open>state\<close> option. When the
  caller's handler has not prevented the default, the key is Escape and \<^verbatim>\<open>hideOnEscape\<close>
  evaluates to true, the installed handler calls \<^verbatim>\<open>state.hide()\<close>, and it calls
  \<^verbatim>\<open>event.stopPropagation()\<close> exactly when there is no parent menu: the count of calls goes up
  by one without a parent menu and stays as it was with one.
\<close>

theorem useMenu_escape_hides_menu:
  assumes "useStore d MenuContext w = Inr (parentMenu, w1)"
    and "useStore d MenuBarContext w1 = Inr (parentMenuBar, w2)"
    and "useEventCallback d (get_handler (props options) ''onKeyDown'') w2 = Inr (onKeyDownProp, w3)"
    and "useBooleanEventCallback d (case hideOnEscape options of None \<Rightarrow> Boolean True | Some v \<Rightarrow> v) w3
           = Inr (hideOnEscapeProp, w4)"
    and "onKeyDownProp (event, v) = (event1, v1)"
    and "\<not> defaultPrevented event1"
    and "key event1 = ''Escape''"
    and "hideOnEscapeProp (event1, v1) = (True, event2, v2)"
  shows "let handler = onKeyDown onKeyDownProp hideOnEscapeProp (hasParentMenu parentMenu) (state options) in
         useMenu_props d options w =
           and_then (useMenuList d (menuList_props options handler))
             (\<lambda>props'. useHovercard d (hovercard_props d options parentMenu parentMenuBar props')) w4
         \<and> menuList_props options handler ''onKeyDown'' = Some (HandlerValue handler)
         \<and> (\<forall>props'. hovercard_props d options parentMenu parentMenuBar props' ''onKeyDown''
               = props' ''onKeyDown'')
         \<and> handler (event, v) =
             ((if parentMenu = None then stopPropagation event2 else event2), hide (state options) v2)
         \<and> (stopPropagationCalls (fst (handler (event, v))) = Suc (stopPropagationCalls event2))
             = (parentMenu = None)
         \<and> (stopPropagationCalls (fst (handler (event, v))) = stopPropagationCalls event2)
             = (parentMenu \<noteq> None)
         \<and> useMenu_props d (options\<lparr>hideOnEscape := None\<rparr>)
             = useMenu_props d (options\<lparr>hideOnEscape := Some (Boolean True)\<rparr>)"
proof -
  have run: "useMenu_props d options w =
      and_then
        (useMenuList d (menuList_props options
           (onKeyDown onKeyDownProp hideOnEscapeProp (hasParentMenu parentMenu) (state options))))
        (\<lambda>props'. useHovercard d (hovercard_props d options parentMenu parentMenuBar props')) w4"
    using assms(1,2,3,4) by (rule useMenu_props_lists)
  have installed: "\<And>handler. menuList_props options handler ''onKeyDown'' = Some (HandlerValue handler)"
    by (simp add: menuList_props_def)
  have kept: "\<And>props'. hovercard_props d options parentMenu parentMenuBar props' ''onKeyDown''
      = props' ''onKeyDown''"
    by (simp add: hovercard_props_def map_add_def split: option.splits)
  have default: "useMenu_props d (options\<lparr>hideOnEscape := None\<rparr>)
          = useMenu_props d (options\<lparr>hideOnEscape := Some (Boolean True)\<rparr>)"
    by (simp add: useMenu_props_def hovercard_props_def menuList_props_def cong: if_cong)
  have escape: "onKeyDown onKeyDownProp hideOnEscapeProp (hasParentMenu parentMenu) (state options) (event, v) =
           ((if parentMenu = None then stopPropagation event2 else event2), hide (state options) v2)"
    using assms(5,6,7,8) by (simp add: onKeyDown_def hasParentMenu_def)
  show ?thesis
    using run installed kept default escape by (simp add: Let_def stopPropagation_def)
qed

text \<open>
  The example render as a top-level menu and as a submenu. On an Escape key press the handler
  that comes back in the returned props hides the menu in both; it stops the propagation in
  the top-level menu and lets the event propagate in the submenu.
\<close>

theorem useMenu_escape_hides_menu_witness:
  "(case useMenu_props (demo_deps None None) demo_options [] of
      Inl e \<Rightarrow> False
    | Inr (p, w) \<Rightarrow>
        (case p ''onKeyDown'' of
           Some (HandlerValue handler) \<Rightarrow>
             handler (demo_event, []) = (demo_event\<lparr>stopPropagationCalls := 1\<rparr>, [''caller'', ''hide''])
         | _ \<Rightarrow> False))
   \<and> (case useMenu_props (demo_deps (Some demo_parent) None) demo_options [] of
      Inl e \<Rightarrow> False
    | Inr (p, w) \<Rightarrow>
        (case p ''onKeyDown'' of
           Some (HandlerValue handler) \<Rightarrow>
             handler (demo_event, []) = (demo_event, [''caller'', ''hide''])
         | _ \<Rightarrow> False))"
proof -
  have returned: "case useMenu_props (demo_deps pm None) demo_options [] of
      Inl e \<Rightarrow> False
    | Inr (p, w) \<Rightarrow>
        (case p ''onKeyDown'' of
           Some (HandlerValue handler) \<Rightarrow> handler (demo_event, []) = result
         | _ \<Rightarrow> False)"
    if expect: "((if pm = None then stopPropagation demo_event else demo_event),
                 hide (state demo_options) [''caller'']) = result"
    for pm result
  proof -
    have 1: "useStore (demo_deps pm None) MenuContext [] = Inr (pm, [])"
      and 2: "useStore (demo_deps pm None) MenuBarContext [] = Inr (None, [])"
      and 3: "useEventCallback (demo_deps pm None) (get_handler (props demo_options) ''onKeyDown'') []
                = Inr (log_caller, [])"
      and 4: "useBooleanEventCallback (demo_deps pm None)
                (case hideOnEscape demo_options of None \<Rightarrow> Boolean True | Some v \<Rightarrow> v) []
                = Inr (always True, [])"
      by (simp_all add: demo_deps_def returns_def get_handler_def demo_options_def)
    have 5: "log_caller (demo_event, []) = (demo_event, [''caller''])"
      and 6: "\<not> defaultPrevented demo_event"
      and 7: "key demo_event = ''Escape''"
      and 8: "always True (demo_event, [''caller'']) = (True, demo_event, [''caller''])"
      by (simp_all add: log_caller_def always_def demo_event_def)
    have hooks: "\<And>p. useMenuList (demo_deps pm None) p = returns p"
      "\<And>p. useHovercard (demo_deps pm None) p = returns p"
      by (simp_all add: demo_deps_def)
    show ?thesis
      using useMenu_escape_hides_menu [where d = "demo_deps pm None" and options = demo_options
          and onKeyDownProp = log_caller and hideOnEscapeProp = "always True", OF 1 2 3 4 5 6 7 8] expect
      by (auto simp add: Let_def hooks and_then_def returns_def split: if_splits)
  qed
  have a: "((if (None :: trace parent_store option) = None then stopPropagation demo_event else demo_event),
            hide (state demo_options) [''caller''])
           = (demo_event\<lparr>stopPropagationCalls := 1\<rparr>, [''caller'', ''hide''])"
    by (simp add: stopPropagation_def demo_event_def demo_options_def demo_state_def)
  have b: "((if Some demo_parent = None then stopPropagation demo_event else demo_event),
            hide (state demo_options) [''caller''])
           = (demo_event, [''caller'', ''hide''])"
    by (simp add: demo_options_def demo_state_def)
  show ?thesis
    by (intro conjI
        returned [of None "(demo_event\<lparr>stopPropagationCalls := 1\<rparr>, [''caller'', ''hide''])", OF a]
        returned [of "Some demo_parent" "(demo_event, [''caller'', ''hide''])", OF b])
qed

text \<open>
  C4. What \<^verbatim>\<open>useMenu\<close> passes to \<^verbatim>\<open>useHovercard\<close>: in a submenu, \<^verbatim>\<open>modal\<close>, \<^verbatim>\<open>backdrop\<close> and
  \<^verbatim>\<open>hideOnEscape\<close> are \<^verbatim>\<open>false\<close> whatever the caller gave. Without a parent menu, \<^verbatim>\<open>modal\<close> and
  \<^verbatim>\<open>backdrop\<close> are those of the props that \<^verbatim>\<open>useMenuList\<close> returned, which are the caller's when
  \<^verbatim>\<open>useMenuList\<close> has left these two properties as it received them.
\<close>

theorem useMenu_hovercard_flags:
  assumes "useStore d MenuContext w = Inr (parentMenu, w1)"
    and "useStore d MenuBarContext w1 = Inr (parentMenuBar, w2)"
    and "useEventCallback d (get_handler (props options) ''onKeyDown'') w2 = Inr (onKeyDownProp, w3)"
    and "useBooleanEventCallback d (case hideOnEscape options of None \<Rightarrow> Boolean True | Some v \<Rightarrow> v) w3
           = Inr (hideOnEscapeProp, w4)"
    and "useMenuList d (menuList_props options
           (onKeyDown onKeyDownProp hideOnEscapeProp (hasParentMenu parentMenu) (state options))) w4
           = Inr (props', w5)"
  shows "let passed = hovercard_props d options parentMenu parentMenuBar props' in
         useMenu_props d options w = useHovercard d passed w5
         \<and> (parentMenu \<noteq> None \<longrightarrow>
              passed ''modal'' = Some (BooleanValue False)
              \<and> passed ''backdrop'' = Some (BooleanValue False)
              \<and> passed ''hideOnEscape'' = Some (BooleanValue False))
         \<and> (parentMenu = None \<longrightarrow>
              passed ''modal'' = Some (get_prop props' ''modal'')
              \<and> passed ''backdrop'' = Some (get_prop props' ''backdrop''))
         \<and> (parentMenu = None \<and> props' ''modal'' = props options ''modal''
              \<and> props' ''backdrop'' = props options ''backdrop'' \<longrightarrow>
              passed ''modal'' = Some (get_prop (props options) ''modal'')
              \<and> passed ''backdrop'' = Some (get_prop (props options) ''backdrop''))"
  using useMenu_props_run [OF assms]
  by (simp add: Let_def hovercard_props_def hasParentMenu_def get_prop_def)

text \<open>
  The caller asks for a modal menu and names no backdrop. As a submenu the menu reaches
  \<^verbatim>\<open>useHovercard\<close> with all three options \<^verbatim>\<open>false\<close>; as a top-level menu it reaches it with
  \<^verbatim>\<open>modal: true\<close> and \<^verbatim>\<open>backdrop: undefined\<close>.
\<close>

theorem useMenu_hovercard_flags_witness:
  "(case useMenu_props (demo_deps (Some demo_parent) None) demo_options [] of
      Inl e \<Rightarrow> False
    | Inr (p, w) \<Rightarrow>
        p ''modal'' = Some (BooleanValue False) \<and> p ''backdrop'' = Some (BooleanValue False)
        \<and> p ''hideOnEscape'' = Some (BooleanValue False))
   \<and> (case useMenu_props (demo_deps None None) demo_options [] of
        Inl e \<Rightarrow> False
      | Inr (p, w) \<Rightarrow> p ''modal'' = Some (BooleanValue True) \<and> p ''backdrop'' = Some Undefined)"
proof -
  have flags: "let passed = hovercard_props (demo_deps pm None) demo_options pm None
                   (menuList_props demo_options
                      (onKeyDown log_caller (always True) (hasParentMenu pm) (state demo_options))) in
         useMenu_props (demo_deps pm None) demo_options [] = useHovercard (demo_deps pm None) passed []
         \<and> (pm \<noteq> None \<longrightarrow>
              passed ''modal'' = Some (BooleanValue False)
              \<and> passed ''backdrop'' = Some (BooleanValue False)
              \<and> passed ''hideOnEscape'' = Some (BooleanValue False))
         \<and> (pm = None \<longrightarrow>
              passed ''modal'' = Some (get_prop (menuList_props demo_options
                      (onKeyDown log_caller (always True) (hasParentMenu pm) (state demo_options))) ''modal'')
              \<and> passed ''backdrop'' = Some (get_prop (menuList_props demo_options
                      (onKeyDown log_caller (always True) (hasParentMenu pm) (state demo_options))) ''backdrop''))
         \<and> (pm = None \<and> menuList_props demo_options
                      (onKeyDown log_caller (always True) (hasParentMenu pm) (state demo_options)) ''modal''
                  = props demo_options ''modal''
              \<and> menuList_props demo_options
                      (onKeyDown log_caller (always True) (hasParentMenu pm) (state demo_options)) ''backdrop''
                  = props demo_options ''backdrop'' \<longrightarrow>
              passed ''modal'' = Some (get_prop (props demo_options) ''modal'')
              \<and> passed ''backdrop'' = Some (get_prop (props demo_options) ''backdrop''))" for pm
  proof -
    have 1: "useStore (demo_deps pm None) MenuContext [] = Inr (pm, [])"
      and 2: "useStore (demo_deps pm None) MenuBarContext [] = Inr (None, [])"
      and 3: "useEventCallback (demo_deps pm None) (get_handler (props demo_options) ''onKeyDown'') []
                = Inr (log_caller, [])"
      and 4: "useBooleanEventCallback (demo_deps pm None)
                (case hideOnEscape demo_options of None \<Rightarrow> Boolean True | Some v \<Rightarrow> v) []
                = Inr (always True, [])"
      and 5: "useMenuList (demo_deps pm None)
                (menuList_props demo_options
                   (onKeyDown log_caller (always True) (hasParentMenu pm) (state demo_options))) []
                = Inr (menuList_props demo_options
                   (onKeyDown log_caller (always True) (hasParentMenu pm) (state demo_options)), [])"
      by (simp_all add: demo_deps_def returns_def get_handler_def demo_options_def)
    show ?thesis
      by (rule useMenu_hovercard_flags [OF 1 2 3 4 5])
  qed
  have r: "\<And>pm p. useHovercard (demo_deps pm None) p [] = Inr (p, [])"
    by (simp add: demo_deps_def returns_def)
  have m: "\<And>h. get_prop (menuList_props demo_options h) ''modal'' = BooleanValue True"
    and b: "\<And>h. get_prop (menuList_props demo_options h) ''backdrop'' = Undefined"
    by (simp_all add: get_prop_def menuList_props_def demo_options_def map_add_def)
  show ?thesis
    using flags [of "Some demo_parent"] flags [of None]
    by (simp add: Let_def r m b)
qed

text \<open>
  C5. The hook branches on two flags. \<open>hasParentMenu\<close> holds exactly when a parent menu
  context is present; \<open>parentIsMenuBar\<close> holds exactly when a menu bar context is present and
  no parent menu context is. The two flags never hold together.
\<close>

theorem mode_flags_exclusive:
  "hasParentMenu (parentMenu :: 'w parent_store option) = (parentMenu \<noteq> None)
   \<and> parentIsMenuBar (parentMenuBar :: 'w parent_store option) parentMenu = (parentMenuBar \<noteq> None \<and> parentMenu = None)
   \<and> \<not> (hasParentMenu parentMenu \<and> parentIsMenuBar parentMenuBar parentMenu)"
  by (auto simp add: hasParentMenu_def parentIsMenuBar_def)

text \<open>
  C7. The function that \<^verbatim>\<open>Menu\<close> is made from evaluates \<^verbatim>\<open>useMenu\<close> on the props it is given and
  hands the result, unchanged, to \<^verbatim>\<open>createElement("div", htmlProps)\<close>: when the hook raises,
  so does the render; otherwise the render is that call of \<^verbatim>\<open>createElement\<close>.
\<close>

theorem Menu_render_createElement:
  "Menu_render d options w =
     (case useMenu d options w of
        Inl e \<Rightarrow> Inl e
      | Inr (htmlProps, w') \<Rightarrow> createElement d ''div'' htmlProps w')
   \<and> Menu d = createComponent d (Menu_render d)"
  by (simp add: Menu_render_def Menu_def and_then_def)

text \<open>
  C8. Once the hooks before it have returned, \<^verbatim>\<open>useMenu\<close> passes to \<^verbatim>\<open>useHovercard\<close> an object
  whose \<^verbatim>\<open>hideOnHoverOutside\<close> is, whatever \<^verbatim>\<open>useMenuList\<close> returned, the function of lines 107
  to 121 closed over the caller's \<^verbatim>\<open>hideOnHoverOutside\<close> option, the parent menu and the menu
  bar read from the two contexts, and \<^verbatim>\<open>state\<close>. That function decides in this order: a
  caller's function gives its own result; a caller's boolean is returned; otherwise, with a
  parent menu, \<^verbatim>\<open>parentMenu.setActiveId(null)\<close> is called and the result is true; otherwise,
  when the parent is not a menu bar, the result is false; otherwise the result is true
  unless the disclosure element exists and has the focus within it.
\<close>

theorem useMenu_hideOnHoverOutside_precedence:
  assumes "useStore d MenuContext w = Inr (parentMenu, w1)"
    and "useStore d MenuBarContext w1 = Inr (parentMenuBar, w2)"
    and "useEventCallback d (get_handler (props options) ''onKeyDown'') w2 = Inr (onKeyDownProp, w3)"
    and "useBooleanEventCallback d (case hideOnEscape options of None \<Rightarrow> Boolean True | Some v \<Rightarrow> v) w3
           = Inr (hideOnEscapeProp, w4)"
    and "useMenuList d (menuList_props options
           (onKeyDown onKeyDownProp hideOnEscapeProp (hasParentMenu parentMenu) (state options))) w4
           = Inr (props', w5)"
  shows "let passed = hovercard_props d options parentMenu parentMenuBar props';
             callback = hideOnHoverOutside_callback d (hideOnHoverOutside options) parentMenu
               (parentIsMenuBar parentMenuBar parentMenu) (state options) in
         useMenu_props d options w = useHovercard d passed w5
         \<and> passed ''hideOnHoverOutside'' = Some (CallbackValue callback)
         \<and> (\<forall>f. hideOnHoverOutside options = Some (Callback f) \<longrightarrow> callback (event, v) = f (event, v))
         \<and> (\<forall>b. hideOnHoverOutside options = Some (Boolean b) \<longrightarrow> callback (event, v) = (b, event, v))
         \<and> (\<forall>parent. hideOnHoverOutside options = None \<and> parentMenu = Some parent \<longrightarrow>
               callback (event, v) = (True, event, setActiveId parent None v))
         \<and> (hideOnHoverOutside options = None \<and> parentMenu = None \<and> parentMenuBar = None \<longrightarrow>
               callback (event, v) = (False, event, v))
         \<and> (hideOnHoverOutside options = None \<and> parentMenu = None \<and> parentMenuBar \<noteq> None \<longrightarrow>
               callback (event, v) =
                 (case current (disclosureRef (state options)) v of
                    None \<Rightarrow> (True, event, v)
                  | Some disclosure \<Rightarrow> (\<not> hasFocusWithin d disclosure v, event, v)))"
proof -
  have passed: "hovercard_props d options parentMenu parentMenuBar props' ''hideOnHoverOutside''
       = Some (CallbackValue (hideOnHoverOutside_callback d (hideOnHoverOutside options) parentMenu
           (parentIsMenuBar parentMenuBar parentMenu) (state options)))"
    by (simp add: hovercard_props_def)
  have cases: "\<And>f. hideOnHoverOutside options = Some (Callback f) \<Longrightarrow>
        hideOnHoverOutside_callback d (hideOnHoverOutside options) parentMenu
          (parentIsMenuBar parentMenuBar parentMenu) (state options) (event, v) = f (event, v)"
    "\<And>b. hideOnHoverOutside options = Some (Boolean b) \<Longrightarrow>
        hideOnHoverOutside_callback d (hideOnHoverOutside options) parentMenu
          (parentIsMenuBar parentMenuBar parentMenu) (state options) (event, v) = (b, event, v)"
    "\<And>parent. hideOnHoverOutside options = None \<Longrightarrow> parentMenu = Some parent \<Longrightarrow>
        hideOnHoverOutside_callback d (hideOnHoverOutside options) parentMenu
          (parentIsMenuBar parentMenuBar parentMenu) (state options) (event, v)
          = (True, event, setActiveId parent None v)"
    "hideOnHoverOutside options = None \<Longrightarrow> parentMenu = None \<Longrightarrow> parentMenuBar = None \<Longrightarrow>
        hideOnHoverOutside_callback d (hideOnHoverOutside options) parentMenu
          (parentIsMenuBar parentMenuBar parentMenu) (state options) (event, v) = (False, event, v)"
    "hideOnHoverOutside options = None \<Longrightarrow> parentMenu = None \<Longrightarrow> parentMenuBar \<noteq> None \<Longrightarrow>
        hideOnHoverOutside_callback d (hideOnHoverOutside options) parentMenu
          (parentIsMenuBar parentMenuBar parentMenu) (state options) (event, v) =
            (case current (disclosureRef (state options)) v of
               None \<Rightarrow> (True, event, v)
             | Some disclosure \<Rightarrow> (\<not> hasFocusWithin d disclosure v, event, v))"
    by (simp_all add: hideOnHoverOutside_callback_def parentIsMenuBar_def hasParentMenu_def
        split: option.splits)
  show ?thesis
    unfolding Let_def
    using useMenu_props_run [OF assms] passed cases by (intro conjI allI impI) simp_all
qed

text \<open>
  The callback that comes back in the props of the example render, on a hover outside: in a
  submenu it writes to the parent's store and answers true; with a caller's \<^verbatim>\<open>false\<close> it
  answers false in the same submenu and writes nothing; in a top-level menu under no menu bar
  it answers false; under a menu bar, where nothing has the focus, it answers true.
\<close>

theorem useMenu_hideOnHoverOutside_precedence_witness:
  "(case useMenu_props (demo_deps (Some demo_parent) None) demo_options [] of
      Inl e \<Rightarrow> False
    | Inr (p, w) \<Rightarrow>
        (case p ''hideOnHoverOutside'' of
           Some (CallbackValue callback) \<Rightarrow>
             callback (demo_event, []) = (True, demo_event, [''setActiveId''])
         | _ \<Rightarrow> False))
   \<and> (case useMenu_props (demo_deps (Some demo_parent) None)
              (demo_options\<lparr>hideOnHoverOutside := Some (Boolean False)\<rparr>) [] of
      Inl e \<Rightarrow> False
    | Inr (p, w) \<Rightarrow>
        (case p ''hideOnHoverOutside'' of
           Some (CallbackValue callback) \<Rightarrow> callback (demo_event, []) = (False, demo_event, [])
         | _ \<Rightarrow> False))
   \<and> (case useMenu_props (demo_deps None None) demo_options [] of
      Inl e \<Rightarrow> False
    | Inr (p, w) \<Rightarrow>
        (case p ''hideOnHoverOutside'' of
           Some (CallbackValue callback) \<Rightarrow> callback (demo_event, []) = (False, demo_event, [])
         | _ \<Rightarrow> False))
   \<and> (case useMenu_props (demo_deps None (Some demo_parent)) demo_options [] of
      Inl e \<Rightarrow> False
    | Inr (p, w) \<Rightarrow>
        (case p ''hideOnHoverOutside'' of
           Some (CallbackValue callback) \<Rightarrow> callback (demo_event, []) = (True, demo_event, [])
         | _ \<Rightarrow> False))"
proof -
  have returned: "case useMenu_props (demo_deps pm pmb) (demo_options\<lparr>hideOnHoverOutside := option\<rparr>) [] of
      Inl e \<Rightarrow> False
    | Inr (p, w) \<Rightarrow>
        (case p ''hideOnHoverOutside'' of
           Some (CallbackValue callback) \<Rightarrow> callback (demo_event, []) = result
         | _ \<Rightarrow> False)"
    if expect: "hideOnHoverOutside_callback (demo_deps pm pmb) option pm (parentIsMenuBar pmb pm) demo_state
                  (demo_event, []) = result"
    for pm pmb option result
  proof -
    let ?options = "demo_options\<lparr>hideOnHoverOutside := option\<rparr>"
    let ?handler = "onKeyDown log_caller (always True) (hasParentMenu pm) (state ?options)"
    have 1: "useStore (demo_deps pm pmb) MenuContext [] = Inr (pm, [])"
      and 2: "useStore (demo_deps pm pmb) MenuBarContext [] = Inr (pmb, [])"
      and 3: "useEventCallback (demo_deps pm pmb) (get_handler (props ?options) ''onKeyDown'') []
                = Inr (log_caller, [])"
      and 4: "useBooleanEventCallback (demo_deps pm pmb)
                (case hideOnEscape ?options of None \<Rightarrow> Boolean True | Some v \<Rightarrow> v) []
                = Inr (always True, [])"
      and 5: "useMenuList (demo_deps pm pmb) (menuList_props ?options ?handler) []
                = Inr (menuList_props ?options ?handler, [])"
      by (simp_all add: demo_deps_def returns_def get_handler_def demo_options_def)
    have st: "state ?options = demo_state" and opt: "hideOnHoverOutside ?options = option"
      by (simp_all add: demo_options_def)
    have hook: "\<And>p. useHovercard (demo_deps pm pmb) p = returns p"
      by (simp add: demo_deps_def)
    show ?thesis
      using useMenu_hideOnHoverOutside_precedence [OF 1 2 3 4 5, of demo_event "[]"] expect
      by (simp add: Let_def st opt hook returns_def)
  qed
  have same: "demo_options\<lparr>hideOnHoverOutside := None\<rparr> = demo_options"
    by (simp add: demo_options_def)
  have a: "hideOnHoverOutside_callback (demo_deps (Some demo_parent) None) None (Some demo_parent)
             (parentIsMenuBar None (Some demo_parent)) demo_state (demo_event, [])
           = (True, demo_event, [''setActiveId''])"
    and b: "hideOnHoverOutside_callback (demo_deps (Some demo_parent) None) (Some (Boolean False))
             (Some demo_parent) (parentIsMenuBar None (Some demo_parent)) demo_state (demo_event, [])
           = (False, demo_event, [])"
    and c: "hideOnHoverOutside_callback (demo_deps None None) None None
             (parentIsMenuBar None (None :: trace parent_store option)) demo_state (demo_event, [])
           = (False, demo_event, [])"
    and e: "hideOnHoverOutside_callback (demo_deps None (Some demo_parent)) None None
             (parentIsMenuBar (Some demo_parent) None) demo_state (demo_event, [])
           = (True, demo_event, [])"
    by (simp_all add: hideOnHoverOutside_callback_def parentIsMenuBar_def hasParentMenu_def
        demo_parent_def demo_state_def demo_ref_def demo_deps_def)
  show ?thesis
    using returned [OF a] returned [OF b] returned [OF c] returned [OF e]
    by (simp add: same)
qed

text \<open>
  C9. Evaluating \<^verbatim>\<open>useMenu\<close> writes to no store: when the imported hooks leave the world as
  they found it, so does \<^verbatim>\<open>useMenu\<close>. The writes of the module are in its two callbacks. With
  caller callbacks that write nothing, the key-down handler leaves the world as it was or
  as \<^verbatim>\<open>state.hide()\<close> leaves it (Escape, not default-prevented, \<^verbatim>\<open>hideOnEscape\<close> true), and the
  \<^verbatim>\<open>hideOnHoverOutside\<close> function leaves it as it was or, with a parent menu, as
  \<^verbatim>\<open>parentMenu.setActiveId(null)\<close> leaves it.
\<close>

theorem useMenu_leaves_stores_unchanged:
  assumes "\<And>c v r v'. useStore d c v = Inr (r, v') \<Longrightarrow> v' = v"
    and "\<And>h v r v'. useEventCallback d h v = Inr (r, v') \<Longrightarrow> v' = v"
    and "\<And>b v r v'. useBooleanEventCallback d b v = Inr (r, v') \<Longrightarrow> v' = v"
    and "\<And>p v r v'. useMenuList d p v = Inr (r, v') \<Longrightarrow> v' = v"
    and "\<And>p v r v'. useHovercard d p v = Inr (r, v') \<Longrightarrow> v' = v"
  shows "(\<forall>p w'. useMenu_props d options w = Inr (p, w') \<longrightarrow> w' = w)
       \<and> snd (onKeyDown (\<lambda>x. x) (\<lambda>(e, v). (b, e, v)) hpm st (event, w))
           = (if \<not> defaultPrevented event \<and> key event = ''Escape'' \<and> b then hide st w else w)
       \<and> snd (snd (hideOnHoverOutside_callback d None parentMenu menuBar st (event, w)))
           = (case parentMenu of None \<Rightarrow> w | Some parent \<Rightarrow> setActiveId parent None w)"
proof (intro conjI allI impI)
  fix p w'
  assume run: "useMenu_props d options w = Inr (p, w')"
  from run obtain parentMenu w1 where 1: "useStore d MenuContext w = Inr (parentMenu, w1)"
    by (auto simp: useMenu_props_def and_then_def split: sum.splits)
  from run 1 obtain parentMenuBar w2 where 2: "useStore d MenuBarContext w1 = Inr (parentMenuBar, w2)"
    by (auto simp: useMenu_props_def and_then_def split: sum.splits)
  from run 1 2 obtain onKeyDownProp w3 where 3:
    "useEventCallback d (get_handler (props options) ''onKeyDown'') w2 = Inr (onKeyDownProp, w3)"
    by (auto simp: useMenu_props_def and_then_def split: sum.splits)
  from run 1 2 3 obtain hideOnEscapeProp w4 where 4:
    "useBooleanEventCallback d (case hideOnEscape options of None \<Rightarrow> Boolean True | Some v \<Rightarrow> v) w3
       = Inr (hideOnEscapeProp, w4)"
    by (auto simp: useMenu_props_def and_then_def split: sum.splits)
  from run 1 2 3 4 obtain props' w5 where 5:
    "useMenuList d (menuList_props options
       (onKeyDown onKeyDownProp hideOnEscapeProp (hasParentMenu parentMenu) (state options))) w4
       = Inr (props', w5)"
    by (auto simp: useMenu_props_def and_then_def split: sum.splits)
  have 6: "useHovercard d (hovercard_props d options parentMenu parentMenuBar props') w5 = Inr (p, w')"
    using useMenu_props_run [OF 1 2 3 4 5] run by simp
  have "w1 = w" "w2 = w1" "w3 = w2" "w4 = w3" "w5 = w4" "w' = w5"
    using assms(1) [OF 1] assms(1) [OF 2] assms(2) [OF 3] assms(3) [OF 4] assms(4) [OF 5] assms(5) [OF 6]
    by simp_all
  then show "w' = w" by simp
next
  show "snd (onKeyDown (\<lambda>x. x) (\<lambda>(e, v). (b, e, v)) hpm st (event, w))
           = (if \<not> defaultPrevented event \<and> key event = ''Escape'' \<and> b then hide st w else w)"
    by (simp add: onKeyDown_def)
next
  show "snd (snd (hideOnHoverOutside_callback d None parentMenu menuBar st (event, w)))
           = (case parentMenu of None \<Rightarrow> w | Some parent \<Rightarrow> setActiveId parent None w)"
    by (simp add: hideOnHoverOutside_callback_def split: option.splits)
qed

text \<open>
  A render in a world that already holds a store write returns in that same world; only
  the Escape key press adds the write of \<^verbatim>\<open>hide\<close>, and only hovering outside a submenu adds the
  write of \<^verbatim>\<open>setActiveId\<close>.
\<close>

theorem useMenu_leaves_stores_unchanged_witness:
  "(case useMenu_props (demo_deps None None) demo_options [''show''] of
      Inl e \<Rightarrow> False
    | Inr (p, w') \<Rightarrow> w' = [''show''])
   \<and> snd (onKeyDown (\<lambda>x. x) (\<lambda>(e, v). (True, e, v)) False demo_state (demo_event, [''show'']))
       = [''show'', ''hide'']
   \<and> snd (snd (hideOnHoverOutside_callback (demo_deps None None) None (Some demo_parent) False
        demo_state (demo_event, [''show''])))
       = [''show'', ''setActiveId'']"
proof -
  have frame: "\<And>c v r v'. useStore (demo_deps None None) c v = Inr (r, v') \<Longrightarrow> v' = v"
    "\<And>h v r v'. useEventCallback (demo_deps None None) h v = Inr (r, v') \<Longrightarrow> v' = v"
    "\<And>b v r v'. useBooleanEventCallback (demo_deps None None) b v = Inr (r, v') \<Longrightarrow> v' = v"
    "\<And>p v r v'. useMenuList (demo_deps None None) p v = Inr (r, v') \<Longrightarrow> v' = v"
    "\<And>p v r v'. useHovercard (demo_deps None None) p v = Inr (r, v') \<Longrightarrow> v' = v"
    by (simp_all add: demo_deps_def returns_def)
  obtain p w' where run: "useMenu_props (demo_deps None None) demo_options [''show''] = Inr (p, w')"
    using demo_run [of None None "[''show'']"] by simp
  have "w' = [''show'']"
    and "snd (onKeyDown (\<lambda>x. x) (\<lambda>(e, v). (True, e, v)) False demo_state (demo_event, [''show'']))
       = hide demo_state [''show'']"
    and "snd (snd (hideOnHoverOutside_callback (demo_deps None None) None (Some demo_parent) False
        demo_state (demo_event, [''show''])))
       = setActiveId demo_parent None [''show'']"
    using useMenu_leaves_stores_unchanged [where d = "demo_deps None None" and options = demo_options
        and w = "[''show'']" and b = True and hpm = False and st = demo_state and event = demo_event
        and parentMenu = "Some demo_parent" and menuBar = False, OF frame] run
    by (simp_all add: demo_event_def)
  then show ?thesis
    using run by (simp add: demo_state_def demo_parent_def)
qed




end
